theory Spec2Isabelle
  imports Complex_Main "HOL-Library.Word" "HOL-Library.Log_Nat"
begin

section \<open>Python numbers and exceptions\<close>

text \<open>
  The program computes with Python floats. A float is modelled as a finite real number
  or one of the three special values the source produces and tests for
  (\<^verbatim>\<open>float('inf')\<close>, its negation, and not-a-number). Finite arithmetic is exact
  here: rounding, overflow, underflow and the sign of zero are left out, except in the
  calibration, which is modelled a second time with rounding to double precision (see
  the section on double precision) because its claim depends on it. A Python
  \<^verbatim>\<open>int\<close> that meets a float in an operation is converted, as Python does, so
  the integer literal \<^verbatim>\<open>0\<close> and the float \<^verbatim>\<open>0.0\<close> are both \<open>Fin 0\<close>.
\<close>

datatype pyfloat = Fin real | PInf | NInf | NaN

datatype pyerror = RuntimeError | ZeroDivisionError | TypeError | ValueError | OverflowError

fun f_neg :: "pyfloat \<Rightarrow> pyfloat" where
  "f_neg (Fin a) = Fin (- a)"
| "f_neg PInf = NInf"
| "f_neg NInf = PInf"
| "f_neg NaN = NaN"

fun f_add :: "pyfloat \<Rightarrow> pyfloat \<Rightarrow> pyfloat" where
  "f_add NaN y = NaN"
| "f_add x NaN = NaN"
| "f_add PInf NInf = NaN"
| "f_add NInf PInf = NaN"
| "f_add PInf y = PInf"
| "f_add x PInf = PInf"
| "f_add NInf y = NInf"
| "f_add x NInf = NInf"
| "f_add (Fin a) (Fin b) = Fin (a + b)"

definition f_sub :: "pyfloat \<Rightarrow> pyfloat \<Rightarrow> pyfloat" where
  "f_sub x y = f_add x (f_neg y)"

text \<open>The sign of an infinite product or quotient: \<open>pos\<close> says whether it is positive.\<close>

definition inf_of :: "bool \<Rightarrow> pyfloat" where
  "inf_of pos = (if pos then PInf else NInf)"

fun f_mul :: "pyfloat \<Rightarrow> pyfloat \<Rightarrow> pyfloat" where
  "f_mul NaN y = NaN"
| "f_mul x NaN = NaN"
| "f_mul PInf PInf = PInf"
| "f_mul PInf NInf = NInf"
| "f_mul NInf PInf = NInf"
| "f_mul NInf NInf = PInf"
| "f_mul PInf (Fin b) = (if b = 0 then NaN else inf_of (0 < b))"
| "f_mul NInf (Fin b) = (if b = 0 then NaN else inf_of (b < 0))"
| "f_mul (Fin a) PInf = (if a = 0 then NaN else inf_of (0 < a))"
| "f_mul (Fin a) NInf = (if a = 0 then NaN else inf_of (a < 0))"
| "f_mul (Fin a) (Fin b) = Fin (a * b)"

text \<open>
  Python's \<^verbatim>\<open>/\<close>: a zero divisor raises ZeroDivisionError whatever the dividend is
  (also for an infinite or not-a-number dividend); otherwise the IEEE quotient.
\<close>

fun py_truediv :: "pyfloat \<Rightarrow> pyfloat \<Rightarrow> pyerror + pyfloat" where
  "py_truediv x (Fin b) =
     (if b = 0 then Inl ZeroDivisionError
      else case x of
             Fin a \<Rightarrow> Inr (Fin (a / b))
           | PInf \<Rightarrow> Inr (inf_of (0 < b))
           | NInf \<Rightarrow> Inr (inf_of (b < 0))
           | NaN \<Rightarrow> Inr NaN)"
| "py_truediv x NaN = Inr NaN"
| "py_truediv (Fin a) y = Inr (Fin 0)"
| "py_truediv x y = Inr NaN"

text \<open>Comparisons: every comparison with not-a-number is false.\<close>

fun f_lt :: "pyfloat \<Rightarrow> pyfloat \<Rightarrow> bool" where
  "f_lt NaN y = False"
| "f_lt x NaN = False"
| "f_lt (Fin a) (Fin b) = (a < b)"
| "f_lt x NInf = False"
| "f_lt PInf y = False"
| "f_lt NInf y = True"
| "f_lt x PInf = True"

fun f_le :: "pyfloat \<Rightarrow> pyfloat \<Rightarrow> bool" where
  "f_le NaN y = False"
| "f_le x NaN = False"
| "f_le (Fin a) (Fin b) = (a \<le> b)"
| "f_le NInf y = True"
| "f_le x PInf = True"
| "f_le x NInf = False"
| "f_le PInf y = False"

definition f_ge :: "pyfloat \<Rightarrow> pyfloat \<Rightarrow> bool" where
  "f_ge x y = f_le y x"

text \<open>
  Python's \<^verbatim>\<open>max(x, y)\<close> keeps its first argument unless the second is greater;
  with a not-a-number first argument nothing is greater, so it is returned.
\<close>

definition py_max :: "pyfloat \<Rightarrow> pyfloat \<Rightarrow> pyfloat" where
  "py_max x y = (if f_lt x y then y else x)"

text \<open>
  Python's \<^verbatim>\<open>x ** w\<close> for a float \<open>x\<close> and a finite exponent \<open>w\<close>, in the order
  of CPython's float power: exponent zero gives 1; not-a-number is returned; an infinite
  base gives infinity or zero by the sign of the exponent; a zero base with a negative
  exponent raises ZeroDivisionError. A negative base with a non-integral exponent gives
  a complex number in CPython (on which the \<^verbatim>\<open>max\<close> of the only caller raises
  TypeError) and ValueError in a MicroPython build without complex numbers; the model
  has no complex values and reports TypeError at the power itself.
\<close>

definition is_integral :: "real \<Rightarrow> bool" where
  "is_integral w = (w = of_int \<lfloor>w\<rfloor>)"

definition is_odd_integer :: "real \<Rightarrow> bool" where
  "is_odd_integer w = (is_integral w \<and> odd \<lfloor>w\<rfloor>)"

fun py_pow :: "pyfloat \<Rightarrow> real \<Rightarrow> pyerror + pyfloat" where
  "py_pow NaN w = (if w = 0 then Inr (Fin 1) else Inr NaN)"
| "py_pow PInf w = (if w = 0 then Inr (Fin 1) else if 0 < w then Inr PInf else Inr (Fin 0))"
| "py_pow NInf w =
     (if w = 0 then Inr (Fin 1)
      else if 0 < w then Inr (if is_odd_integer w then NInf else PInf)
      else Inr (Fin 0))"
| "py_pow (Fin v) w =
     (if w = 0 then Inr (Fin 1)
      else if v = 0 then (if w < 0 then Inl ZeroDivisionError else Inr (Fin 0))
      else if v < 0 then
        (if is_integral w then Inr (Fin (power_int v \<lfloor>w\<rfloor>)) else Inl TypeError)
      else Inr (Fin (v powr w)))"

text \<open>Python's \<^verbatim>\<open>sum\<close> starts from the integer 0 and adds from the left.\<close>

definition py_sum :: "pyfloat list \<Rightarrow> pyfloat" where
  "py_sum xs = foldl f_add (Fin 0) xs"

section \<open>SensorSuite\<close>

text \<open>
  The fields of the class that the gas pipeline uses. The load resistor, the reference
  voltage and the clean-air factor are configuration numbers; the baseline \<open>mq4_ro\<close>
  is \<open>None\<close> until a calibration has stored a value. The two hardware objects are
  collaborators: a temperature and humidity read is passed in as the pair the driver
  returned, or \<open>None\<close> when the driver raised; an analog read is passed in as the
  16-bit sample \<^verbatim>\<open>read_u16\<close> returned. Text printed to the console is not part of
  the model.
\<close>

record SensorSuite =
  mq4_rl :: real
  mq4_vref :: real
  mq4_ro_factor :: real
  mq4_ro :: "pyfloat option"

definition RO_CLEAN_AIR_FACTOR_DEFAULT :: real where
  "RO_CLEAN_AIR_FACTOR_DEFAULT = 4"

text \<open>
  The constructor. \<^verbatim>\<open>mq4_ro_clean_air_factor or DEFAULT\<close> takes the default when
  the argument is \<^verbatim>\<open>None\<close> and also when it is the number zero, which is falsy.
\<close>

definition SensorSuite_init :: "real \<Rightarrow> real \<Rightarrow> real option \<Rightarrow> SensorSuite" where
  "SensorSuite_init rl vref mq4_ro_clean_air_factor =
     \<lparr> mq4_rl = rl, mq4_vref = vref,
       mq4_ro_factor =
         (case mq4_ro_clean_air_factor of
            None \<Rightarrow> RO_CLEAN_AIR_FACTOR_DEFAULT
          | Some f \<Rightarrow> if f = 0 then RO_CLEAN_AIR_FACTOR_DEFAULT else f),
       mq4_ro = None \<rparr>"

definition read_dht :: "(int \<times> int) option \<Rightarrow> int option \<times> int option" where
  "read_dht dht = (case dht of Some (t, h) \<Rightarrow> (Some t, Some h) | None \<Rightarrow> (None, None))"

definition read_mq4_raw :: "16 word \<Rightarrow> int" where
  "read_mq4_raw adc = uint adc"

definition voltage_from_raw :: "SensorSuite \<Rightarrow> int \<Rightarrow> pyfloat" where
  "voltage_from_raw s raw = Fin ((of_int raw / 65535) * mq4_vref s)"

text \<open>
  \<^verbatim>\<open>get_rs(voltage=None)\<close>: without a voltage it takes one analog sample, here
  \<open>adc\<close>. The quotient of the last line is Python's division, which can raise.
\<close>

definition get_rs :: "SensorSuite \<Rightarrow> 16 word \<Rightarrow> pyfloat option \<Rightarrow> pyerror + pyfloat" where
  "get_rs s adc voltage =
     (let v = (case voltage of None \<Rightarrow> voltage_from_raw s (read_mq4_raw adc) | Some v \<Rightarrow> v)
      in if f_le v (Fin 0) then Inr PInf
         else if f_ge v (Fin (mq4_vref s)) then Inr (Fin 0)
         else py_truediv (f_mul (Fin (mq4_rl s)) (f_sub (Fin (mq4_vref s)) v)) v)"

text \<open>
  The calibration loop \<^verbatim>\<open>for _ in range(samples)\<close>: \<open>adc i\<close> is the sample that
  the \<open>i\<close>-th analog read of the pass returns, \<open>n\<close> the number of iterations left and
  \<open>total_rs\<close> the running sum. The pause between two samples is not modelled.
\<close>

fun calibrate_loop ::
  "SensorSuite \<Rightarrow> (nat \<Rightarrow> 16 word) \<Rightarrow> nat \<Rightarrow> nat \<Rightarrow> pyfloat \<Rightarrow> pyerror + pyfloat" where
  "calibrate_loop s adc i 0 total_rs = Inr total_rs"
| "calibrate_loop s adc i (Suc n) total_rs =
     (let voltage = voltage_from_raw s (read_mq4_raw (adc i))
      in case get_rs s (adc i) (Some voltage) of
           Inl e \<Rightarrow> Inl e
         | Inr rs \<Rightarrow> calibrate_loop s adc (Suc i) n (f_add total_rs rs))"

text \<open>
  \<^verbatim>\<open>calibrate_mq4_ro(samples, delay_ms)\<close> returns the suite with the new baseline
  and the baseline itself. \<^verbatim>\<open>range(samples)\<close> is empty for \<open>samples \<le> 0\<close>; both
  divisions can raise, and then the baseline has not been assigned.
\<close>

definition calibrate_mq4_ro ::
  "SensorSuite \<Rightarrow> int \<Rightarrow> (nat \<Rightarrow> 16 word) \<Rightarrow> pyerror + (SensorSuite \<times> pyfloat)" where
  "calibrate_mq4_ro s samples adc =
     (case calibrate_loop s adc 0 (nat samples) (Fin 0) of
        Inl e \<Rightarrow> Inl e
      | Inr total_rs \<Rightarrow>
          (case py_truediv total_rs (Fin (of_int samples)) of
             Inl e \<Rightarrow> Inl e
           | Inr avg_rs \<Rightarrow>
               (case py_truediv avg_rs (Fin (mq4_ro_factor s)) of
                  Inl e \<Rightarrow> Inl e
                | Inr ro \<Rightarrow> Inr (s\<lparr>mq4_ro := Some ro\<rparr>, ro))))"

text \<open>
  \<^verbatim>\<open>read_mq4_ratio\<close> raises RuntimeError while the baseline is \<^verbatim>\<open>None\<close>; a zero
  baseline gives infinity instead of a division.
\<close>

definition read_mq4_ratio :: "SensorSuite \<Rightarrow> 16 word \<Rightarrow> pyerror + pyfloat" where
  "read_mq4_ratio s adc =
     (case mq4_ro s of
        None \<Rightarrow> Inl RuntimeError
      | Some ro \<Rightarrow>
          (let voltage = voltage_from_raw s (read_mq4_raw adc)
           in case get_rs s adc (Some voltage) of
                Inl e \<Rightarrow> Inl e
              | Inr rs \<Rightarrow> if ro \<noteq> Fin 0 then py_truediv rs ro else Inr PInf))"

text \<open>
  The body of the \<^verbatim>\<open>try\<close> block of \<^verbatim>\<open>estimate_methane_ppm\<close>, and the function
  itself, whose \<^verbatim>\<open>except Exception\<close> turns every exception into \<^verbatim>\<open>None\<close>.
\<close>

definition estimate_methane_ppm_try :: "pyfloat \<Rightarrow> real \<Rightarrow> real \<Rightarrow> pyerror + pyfloat" where
  "estimate_methane_ppm_try ratio a b =
     (case py_pow ratio b of
        Inl e \<Rightarrow> Inl e
      | Inr p \<Rightarrow> (let ppm = f_mul (Fin a) p in Inr (py_max ppm (Fin 0))))"

definition estimate_methane_ppm :: "pyfloat \<Rightarrow> real \<Rightarrow> real \<Rightarrow> pyfloat option" where
  "estimate_methane_ppm ratio a b =
     (case estimate_methane_ppm_try ratio a b of Inl e \<Rightarrow> None | Inr ppm \<Rightarrow> Some ppm)"

text \<open>The default arguments \<^verbatim>\<open>a=12, b=-0.5\<close>.\<close>

definition a_default :: real where
  "a_default = 12"

definition b_default :: real where
  "b_default = - (1 / 2)"

definition read_all ::
  "SensorSuite \<Rightarrow> (int \<times> int) option \<Rightarrow> 16 word \<Rightarrow> int option \<times> int option \<times> pyfloat option" where
  "read_all s dht adc =
     (let (temp, humid) = read_dht dht;
          methane_ppm =
            (case read_mq4_ratio s adc of
               Inl e \<Rightarrow> None
             | Inr ratio \<Rightarrow> estimate_methane_ppm ratio a_default b_default)
      in (temp, humid, methane_ppm))"

section \<open>Formatting\<close>

text \<open>
  \<^verbatim>\<open>float(x)\<close> raises TypeError on \<^verbatim>\<open>None\<close>; \<^verbatim>\<open>int(x)\<close> of a float truncates
  towards zero and raises on not-a-number (ValueError) and on an infinity (OverflowError).
\<close>

definition py_float :: "pyfloat option \<Rightarrow> pyerror + pyfloat" where
  "py_float x = (case x of None \<Rightarrow> Inl TypeError | Some v \<Rightarrow> Inr v)"

fun py_int :: "pyfloat \<Rightarrow> pyerror + int" where
  "py_int (Fin x) = Inr (if 0 \<le> x then \<lfloor>x\<rfloor> else \<lceil>x\<rceil>)"
| "py_int NaN = Inl ValueError"
| "py_int PInf = Inl OverflowError"
| "py_int NInf = Inl OverflowError"

definition digit_char :: "nat \<Rightarrow> char" where
  "digit_char n = (case drop n ''0123456789'' of c # cs \<Rightarrow> c | [] \<Rightarrow> CHR ''9'')"

fun str_nat :: "nat \<Rightarrow> string" where
  "str_nat n = (if n < 10 then [digit_char n] else str_nat (n div 10) @ [digit_char (n mod 10)])"

declare str_nat.simps [simp del]

definition str_int :: "int \<Rightarrow> string" where
  "str_int i = (if i < 0 then CHR ''-'' # str_nat (nat (- i)) else str_nat (nat i))"

text \<open>
  The format \<^verbatim>\<open>.df\<close> (\<open>d\<close> digits after the point, \<open>d\<close> at least 1) rounds the
  value to the nearest multiple of \<open>10 ^ -d\<close>, a tie to the even one, and writes the
  special values by name.
\<close>

definition round_half_even :: "real \<Rightarrow> int" where
  "round_half_even x =
     (let f = \<lfloor>x\<rfloor>; r = x - of_int f
      in if r < 1 / 2 then f else if 1 / 2 < r then f + 1 else if even f then f else f + 1)"

definition zero_fill :: "nat \<Rightarrow> string \<Rightarrow> string" where
  "zero_fill d t = replicate (d - length t) CHR ''0'' @ t"

fun format_fixed :: "nat \<Rightarrow> pyfloat \<Rightarrow> string" where
  "format_fixed d (Fin x) =
     (let n = nat (round_half_even (\<bar>x\<bar> * 10 ^ d))
      in (if x < 0 then [CHR ''-''] else []) @ str_nat (n div 10 ^ d) @ [CHR ''.'']
         @ zero_fill d (str_nat (n mod 10 ^ d)))"
| "format_fixed d PInf = ''inf''"
| "format_fixed d NInf = ''-inf''"
| "format_fixed d NaN = ''nan''"

section \<open>BananaLcdDisplay\<close>

text \<open>
  The display driver is a collaborator; the model records the calls made on it, in order.
\<close>

datatype lcd_call = Clear | MoveTo nat nat | PutStr string

record BananaLcdDisplay =
  lcd :: "lcd_call list"
  current_screen :: nat

definition BananaLcdDisplay_init :: BananaLcdDisplay where
  "BananaLcdDisplay_init = \<lparr> lcd = [], current_screen = 0 \<rparr>"

definition pad :: "string \<Rightarrow> nat \<Rightarrow> string" where
  "pad t n = (if length t < n then t @ replicate (n - length t) CHR '' '' else take n t)"

definition temp_str :: "pyfloat option \<Rightarrow> string" where
  "temp_str temperature =
     (case py_float temperature of
        Inl e \<Rightarrow> ''Temp: N/A''
      | Inr v \<Rightarrow> ''Temp: '' @ format_fixed 1 v @ ''C'')"

definition humid_str :: "pyfloat option \<Rightarrow> string" where
  "humid_str humidity =
     (case py_float humidity of
        Inl e \<Rightarrow> ''Humidity: N/A''
      | Inr v \<Rightarrow>
          (case py_int v of
             Inl e \<Rightarrow> ''Humidity: N/A''
           | Inr humid_val \<Rightarrow> ''Humidity: '' @ str_int humid_val @ ''%''))"

definition display_screen_1 ::
  "BananaLcdDisplay \<Rightarrow> pyfloat option \<Rightarrow> pyfloat option \<Rightarrow> BananaLcdDisplay" where
  "display_screen_1 d temperature humidity =
     d\<lparr>lcd := lcd d @ [Clear, MoveTo 0 0, PutStr (pad (temp_str temperature) 16),
                       MoveTo 0 1, PutStr (pad (humid_str humidity) 16)]\<rparr>"

definition methane_str :: "pyfloat option \<Rightarrow> string" where
  "methane_str methane =
     (case py_float methane of
        Inl e \<Rightarrow> ''Methane: N/A''
      | Inr methane_val \<Rightarrow> ''Methane: '' @ format_fixed 2 methane_val @ ''ppm'')"

definition shelf_str :: "string option \<Rightarrow> string" where
  "shelf_str shelf_life = (case shelf_life of Some t \<Rightarrow> t | None \<Rightarrow> ''Shelf Life: N/A'')"

definition display_screen_2 ::
  "BananaLcdDisplay \<Rightarrow> pyfloat option \<Rightarrow> string option \<Rightarrow> BananaLcdDisplay" where
  "display_screen_2 d methane shelf_life =
     d\<lparr>lcd := lcd d @ [Clear, MoveTo 0 0, PutStr (pad (methane_str methane) 16),
                       MoveTo 0 1, PutStr (pad (shelf_str shelf_life) 16)]\<rparr>"

definition update ::
  "BananaLcdDisplay \<Rightarrow> pyfloat option \<Rightarrow> pyfloat option \<Rightarrow> pyfloat option \<Rightarrow> string option
     \<Rightarrow> BananaLcdDisplay" where
  "update d temperature humidity methane shelf_life =
     (if current_screen d = 0
      then (display_screen_1 d temperature humidity)\<lparr>current_screen := 1\<rparr>
      else (display_screen_2 d methane shelf_life)\<lparr>current_screen := 0\<rparr>)"

section \<open>The main loop\<close>

definition METHANE_FRESH :: real where
  "METHANE_FRESH = 8"

definition METHANE_EARLY :: real where
  "METHANE_EARLY = 10"

definition METHANE_ACTIVE :: real where
  "METHANE_ACTIVE = 12"

text \<open>
  The smoothing block: a present reading is appended, the oldest entry is removed when
  the history has more than 5 entries, and the average is the sum over the length;
  an absent reading leaves the history alone and makes the average \<^verbatim>\<open>None\<close>.
\<close>

definition smooth_methane ::
  "pyfloat list \<Rightarrow> pyfloat option \<Rightarrow> pyerror + (pyfloat list \<times> pyfloat option)" where
  "smooth_methane methane_history methane =
     (case methane of
        Some m \<Rightarrow>
          (let appended = methane_history @ [m];
               history = (if 5 < length appended then tl appended else appended)
           in case py_truediv (py_sum history) (Fin (of_nat (length history))) of
                Inl e \<Rightarrow> Inl e
              | Inr methane_avg \<Rightarrow> Inr (history, Some methane_avg))
      | None \<Rightarrow> Inr (methane_history, None))"

text \<open>The threshold block that sets \<^verbatim>\<open>shelf_life\<close>.\<close>

definition shelf_life :: "pyfloat option \<Rightarrow> string" where
  "shelf_life methane_avg =
     (case methane_avg of
        None \<Rightarrow> ''Unknown''
      | Some v \<Rightarrow>
          if f_lt v (Fin METHANE_FRESH) then ''5-7 Days''
          else if f_lt v (Fin METHANE_EARLY) then ''3-5 Days''
          else if f_lt v (Fin METHANE_ACTIVE) then ''1-3 Days''
          else ''0 Days'')"

text \<open>
  The replacement field \<^verbatim>\<open>{methane_avg:.2f}\<close> of the status line: formatting
  \<^verbatim>\<open>None\<close> with a float format raises (TypeError in CPython, ValueError in
  MicroPython; the loop catches neither).
\<close>

definition format_methane_avg :: "pyfloat option \<Rightarrow> pyerror + string" where
  "format_methane_avg methane_avg =
     (case methane_avg of None \<Rightarrow> Inl TypeError | Some v \<Rightarrow> Inr (format_fixed 2 v))"

text \<open>\<^verbatim>\<open>methane_avg or 0\<close>: \<^verbatim>\<open>None\<close> and zero are falsy and give 0.\<close>

definition methane_avg_or_0 :: "pyfloat option \<Rightarrow> pyfloat" where
  "methane_avg_or_0 methane_avg =
     (case methane_avg of None \<Rightarrow> Fin 0 | Some v \<Rightarrow> if v = Fin 0 then Fin 0 else v)"

record main_state =
  sensors :: SensorSuite
  display :: BananaLcdDisplay
  methane_history :: "pyfloat list"

text \<open>
  One pass of the body of \<^verbatim>\<open>while True\<close>, up to the pause at its end. The driver
  returns integers, so \<^verbatim>\<open>float(temp)\<close> and \<^verbatim>\<open>int(float(humidity))\<close> do not raise.
  An exception leaves the loop: only KeyboardInterrupt is caught around it.
\<close>

definition main_cycle ::
  "main_state \<Rightarrow> (int \<times> int) option \<Rightarrow> 16 word \<Rightarrow> pyerror + main_state" where
  "main_cycle st dht adc =
     (let (temp, humidity, methane) = read_all (sensors st) dht adc;
          temp_val = map_option (\<lambda>t. Fin (of_int t)) temp;
          humid_val = map_option (\<lambda>h. Fin (of_int h)) humidity
      in case smooth_methane (methane_history st) methane of
           Inl e \<Rightarrow> Inl e
         | Inr (history, methane_avg) \<Rightarrow>
             (case format_methane_avg methane_avg of
                Inl e \<Rightarrow> Inl e
              | Inr status \<Rightarrow>
                  Inr (st\<lparr>display := update (display st) temp_val humid_val
                                         (Some (methane_avg_or_0 methane_avg))
                                         (Some (shelf_life methane_avg)),
                          methane_history := history\<rparr>)))"

text \<open>
  The start of the program: default suite, new display, calibration with the default
  50 samples, empty history. Then the loop over the reads of successive passes.
\<close>

definition main_start :: "(nat \<Rightarrow> 16 word) \<Rightarrow> pyerror + main_state" where
  "main_start adc =
     (case calibrate_mq4_ro (SensorSuite_init 10000 (33 / 10) None) 50 adc of
        Inl e \<Rightarrow> Inl e
      | Inr (s, ro) \<Rightarrow>
          Inr \<lparr> sensors = s, display = BananaLcdDisplay_init, methane_history = [] \<rparr>)"

fun main_loop ::
  "main_state \<Rightarrow> ((int \<times> int) option \<times> 16 word) list \<Rightarrow> pyerror + main_state" where
  "main_loop st [] = Inr st"
| "main_loop st ((dht, adc) # reads) =
     (case main_cycle st dht adc of Inl e \<Rightarrow> Inl e | Inr st' \<Rightarrow> main_loop st' reads)"

text \<open>
  The resistance that \<^verbatim>\<open>get_rs\<close> computes for one analog sample, as a plain value
  (the function never raises, see \<open>get_rs_total\<close> below).
\<close>

definition rs_value :: "SensorSuite \<Rightarrow> 16 word \<Rightarrow> pyfloat" where
  "rs_value s adc = (case get_rs s adc None of Inl e \<Rightarrow> NaN | Inr rs \<Rightarrow> rs)"

section \<open>Double precision\<close>

text \<open>
  The calibration is the one place where a claim speaks of exact equality of floats, so
  its arithmetic is also modelled as CPython, the interpreter of the test suite,
  performs it: every operation returns the double nearest to the exact result, a tie
  going to the even mantissa. A double has a mantissa of 53 bits. \<open>double_exponent x\<close> is
  the exponent of the leading bit of a positive \<open>x\<close> that is at least \<open>2 ^ -1100\<close>;
  overflow and the subnormal numbers below \<open>2 ^ -1022\<close> are outside the model, and no
  resistance of a 16-bit sample comes near either.
\<close>

definition double_exponent :: "real \<Rightarrow> int" where
  "double_exponent x = bitlen \<lfloor>x * 2 ^ 1100\<rfloor> - 1101"

definition round_double :: "real \<Rightarrow> real" where
  "round_double x =
     (if x = 0 then 0
      else let ulp = 2 powi (double_exponent \<bar>x\<bar> - 52)
           in sgn x * (of_int (round_half_even (\<bar>x\<bar> / ulp)) * ulp))"

text \<open>
  The result of an operation as the interpreter stores it, and the four operations of the
  calibration with that rounding.
\<close>

definition fl :: "pyfloat \<Rightarrow> pyfloat" where
  "fl x = (case x of Fin a \<Rightarrow> Fin (round_double a) | PInf \<Rightarrow> PInf | NInf \<Rightarrow> NInf | NaN \<Rightarrow> NaN)"

definition fl_add :: "pyfloat \<Rightarrow> pyfloat \<Rightarrow> pyfloat" where
  "fl_add x y = fl (f_add x y)"

definition fl_sub :: "pyfloat \<Rightarrow> pyfloat \<Rightarrow> pyfloat" where
  "fl_sub x y = fl (f_sub x y)"

definition fl_mul :: "pyfloat \<Rightarrow> pyfloat \<Rightarrow> pyfloat" where
  "fl_mul x y = fl (f_mul x y)"

definition fl_truediv :: "pyfloat \<Rightarrow> pyfloat \<Rightarrow> pyerror + pyfloat" where
  "fl_truediv x y = (case py_truediv x y of Inl e \<Rightarrow> Inl e | Inr q \<Rightarrow> Inr (fl q))"

text \<open>
  The calibration path once more, now with every operation rounded:
  \<^verbatim>\<open>voltage_from_raw\<close>, \<^verbatim>\<open>get_rs\<close>, the loop and \<^verbatim>\<open>calibrate_mq4_ro\<close>
  read as before, with \<open>fl_add\<close>, \<open>fl_sub\<close>, \<open>fl_mul\<close> and \<open>fl_truediv\<close> in the
  places of \<open>f_add\<close>, \<open>f_sub\<close>, \<open>f_mul\<close> and \<open>py_truediv\<close>. The integers 10000,
  65535 and the sample are doubles as they stand; the reference voltage of the suite is
  taken to be a double, so the default \<^verbatim>\<open>3.3\<close> is \<open>round_double (33 / 10)\<close>.
\<close>

definition voltage_from_raw_double :: "SensorSuite \<Rightarrow> int \<Rightarrow> pyfloat" where
  "voltage_from_raw_double s raw = fl_mul (fl (Fin (of_int raw / 65535))) (Fin (mq4_vref s))"

definition get_rs_double :: "SensorSuite \<Rightarrow> 16 word \<Rightarrow> pyfloat option \<Rightarrow> pyerror + pyfloat" where
  "get_rs_double s adc voltage =
     (let v = (case voltage of
                 None \<Rightarrow> voltage_from_raw_double s (read_mq4_raw adc)
               | Some v \<Rightarrow> v)
      in if f_le v (Fin 0) then Inr PInf
         else if f_ge v (Fin (mq4_vref s)) then Inr (Fin 0)
         else fl_truediv (fl_mul (Fin (mq4_rl s)) (fl_sub (Fin (mq4_vref s)) v)) v)"



definition rs_value_double :: "SensorSuite \<Rightarrow> 16 word \<Rightarrow> pyfloat" where
  "rs_value_double s adc = (case get_rs_double s adc None of Inl e \<Rightarrow> NaN | Inr rs \<Rightarrow> rs)"


section \<open>Resistance model\<close>

lemma get_rs_total: "\<exists>rs. get_rs s adc voltage = Inr rs"
  unfolding get_rs_def Let_def
  by (cases "(case voltage of None \<Rightarrow> voltage_from_raw s (read_mq4_raw adc) | Some v \<Rightarrow> v)")
     (auto simp: f_ge_def f_sub_def)

lemma get_rs_of_sample:
  "get_rs s adc (Some (voltage_from_raw s (read_mq4_raw adc))) = Inr (rs_value s adc)"
proof -
  obtain rs where "get_rs s adc None = Inr rs"
    using get_rs_total by blast
  moreover have "get_rs s adc (Some (voltage_from_raw s (read_mq4_raw adc))) = get_rs s adc None"
    by (simp add: get_rs_def)
  ultimately show ?thesis
    by (simp add: rs_value_def)
qed

text \<open>
  Claim C9. For every raw sample the voltage is the sample over 65535 times the
  reference voltage. The resistance conversion never raises, for any voltage and also
  when it reads the sample itself; with a positive reference voltage it is infinity
  for a voltage at or below zero, zero for a voltage at or above the reference voltage,
  and load resistor times (reference voltage minus voltage) over voltage in between.
\<close>

theorem get_rs_sentinels:
  assumes "0 < mq4_vref s"
  shows "voltage_from_raw s r = Fin ((of_int r / 65535) * mq4_vref s)
    \<and> (\<exists>rs. get_rs s adc voltage = Inr rs)
    \<and> (f_le v1 (Fin 0) \<longrightarrow> get_rs s adc (Some v1) = Inr PInf)
    \<and> (f_ge v2 (Fin (mq4_vref s)) \<longrightarrow> get_rs s adc (Some v2) = Inr (Fin 0))
    \<and> (0 < x \<and> x < mq4_vref s \<longrightarrow>
         get_rs s adc (Some (Fin x)) = Inr (Fin (mq4_rl s * (mq4_vref s - x) / x)))"
proof (intro conjI impI)
  show "voltage_from_raw s r = Fin ((of_int r / 65535) * mq4_vref s)"
    by (simp add: voltage_from_raw_def)
  show "\<exists>rs. get_rs s adc voltage = Inr rs"
    by (rule get_rs_total)
  show "get_rs s adc (Some v1) = Inr PInf" if "f_le v1 (Fin 0)"
    using that by (simp add: get_rs_def)
  show "get_rs s adc (Some v2) = Inr (Fin 0)" if "f_ge v2 (Fin (mq4_vref s))"
    using that assms by (cases v2) (auto simp: get_rs_def f_ge_def)
  show "get_rs s adc (Some (Fin x)) = Inr (Fin (mq4_rl s * (mq4_vref s - x) / x))"
    if "0 < x \<and> x < mq4_vref s"
    using that by (simp add: get_rs_def f_ge_def f_sub_def)
qed

theorem get_rs_sentinels_witness:
  "0 < mq4_vref (SensorSuite_init 10000 (33 / 10) None)
   \<and> voltage_from_raw (SensorSuite_init 10000 (33 / 10) None) 65535 = Fin (33 / 10)
   \<and> f_le (Fin 0) (Fin 0)
   \<and> get_rs (SensorSuite_init 10000 (33 / 10) None) 0 (Some (Fin 0)) = Inr PInf
   \<and> f_ge (Fin (33 / 10)) (Fin (mq4_vref (SensorSuite_init 10000 (33 / 10) None)))
   \<and> get_rs (SensorSuite_init 10000 (33 / 10) None) 0 (Some (Fin (33 / 10))) = Inr (Fin 0)
   \<and> (0 :: real) < 33 / 20 \<and> 33 / 20 < mq4_vref (SensorSuite_init 10000 (33 / 10) None)
   \<and> get_rs (SensorSuite_init 10000 (33 / 10) None) 0 (Some (Fin (33 / 20))) = Inr (Fin 10000)"
proof -
  have h: "0 < mq4_vref (SensorSuite_init 10000 (33 / 10) None)"
    by (simp add: SensorSuite_init_def)
  show ?thesis
    using h get_rs_sentinels [OF h, of 65535 0 None "Fin 0" "Fin (33 / 10)" "33 / 20"]
    by (simp add: SensorSuite_init_def f_ge_def)
qed

section \<open>Calibration\<close>

lemma calibrate_loop_sum:
  "calibrate_loop s adc i n t = Inr (foldl f_add t (map (\<lambda>k. rs_value s (adc k)) [i..<i + n]))"
proof (induction n arbitrary: i t)
  case 0
  show ?case by simp
next
  case (Suc n)
  have "[i..<i + Suc n] = i # [Suc i..<Suc i + n]"
    by (simp add: upt_rec)
  then show ?case
    by (simp add: get_rs_of_sample Suc.IH)
qed

lemma foldl_add_Fin:
  "foldl f_add (Fin a) (replicate n (Fin v)) = Fin (a + of_nat n * v)"
  by (induction n arbitrary: a) (simp_all add: algebra_simps)

lemma foldl_add_PInf: "foldl f_add PInf (replicate n PInf) = PInf"
  by (induction n) simp_all

lemma foldl_add_NInf: "foldl f_add NInf (replicate n NInf) = NInf"
  by (induction n) simp_all

lemma foldl_add_NaN: "foldl f_add NaN (replicate n V) = NaN"
  by (induction n) simp_all

lemma mean_of_constant:
  assumes "0 < n"
  shows "py_truediv (py_sum (replicate n V)) (Fin (of_nat n)) = Inr V"
proof -
  obtain m where n: "n = Suc m"
    using assms by (cases n) auto
  show ?thesis
  proof (cases V)
    case (Fin v)
    then show ?thesis
      using assms by (simp add: py_sum_def foldl_add_Fin)
  next
    case PInf
    then show ?thesis
      by (simp add: py_sum_def n foldl_add_PInf inf_of_def)
  next
    case NInf
    then show ?thesis
      by (simp add: py_sum_def n foldl_add_NInf inf_of_def)
  next
    case NaN
    then show ?thesis
      by (simp add: py_sum_def n foldl_add_NaN)
  qed
qed

lemma truediv_nonzero: "b \<noteq> 0 \<Longrightarrow> \<exists>q. py_truediv x (Fin b) = Inr q"
  by (cases x) simp_all

lemma calibrate_mq4_ro_result:
  assumes "0 < samples" and "mq4_ro_factor s \<noteq> 0"
  shows "\<exists>avg_rs ro.
           py_truediv (py_sum (map (\<lambda>i. rs_value s (adc i)) [0..<nat samples]))
             (Fin (of_int samples)) = Inr avg_rs
         \<and> py_truediv avg_rs (Fin (mq4_ro_factor s)) = Inr ro
         \<and> calibrate_mq4_ro s samples adc = Inr (s\<lparr>mq4_ro := Some ro\<rparr>, ro)
         \<and> ((\<forall>i < nat samples. rs_value s (adc i) = V) \<longrightarrow>
              py_truediv V (Fin (mq4_ro_factor s)) = Inr ro)"
proof -
  let ?total = "py_sum (map (\<lambda>i. rs_value s (adc i)) [0..<nat samples])"
  have loop: "calibrate_loop s adc 0 (nat samples) (Fin 0) = Inr ?total"
    by (simp add: calibrate_loop_sum py_sum_def)
  obtain avg_rs where avg: "py_truediv ?total (Fin (of_int samples)) = Inr avg_rs"
    using truediv_nonzero [of "of_int samples" ?total] assms(1) by auto
  obtain ro where ro: "py_truediv avg_rs (Fin (mq4_ro_factor s)) = Inr ro"
    using truediv_nonzero [OF assms(2), of avg_rs] by auto
  have call: "calibrate_mq4_ro s samples adc = Inr (s\<lparr>mq4_ro := Some ro\<rparr>, ro)"
    by (simp add: calibrate_mq4_ro_def loop avg ro del: py_truediv.simps)
  have const: "py_truediv V (Fin (mq4_ro_factor s)) = Inr ro"
    if "\<forall>i < nat samples. rs_value s (adc i) = V"
  proof -
    have "map (\<lambda>i. rs_value s (adc i)) [0..<nat samples] = replicate (nat samples) V"
      using that by (intro nth_equalityI) auto
    moreover have "real_of_int samples = of_nat (nat samples)"
      using assms(1) by simp
    ultimately have "py_truediv ?total (Fin (of_int samples)) = Inr V"
      using mean_of_constant [of "nat samples" V] assms(1) by simp
    with avg ro show ?thesis by (simp del: py_truediv.simps)
  qed
  from avg ro call const show ?thesis by blast
qed

lemma rs_value_clean_air: "rs_value (SensorSuite_init 10000 (33 / 10) None) 13107 = Fin 40000"
  by (simp add: rs_value_def get_rs_def voltage_from_raw_def read_mq4_raw_def
      SensorSuite_init_def f_ge_def f_sub_def)

lemma calibrate_clean_air:
  "calibrate_mq4_ro (SensorSuite_init 10000 (33 / 10) None) 50 (\<lambda>i. 13107)
     = Inr ((SensorSuite_init 10000 (33 / 10) None)\<lparr>mq4_ro := Some (Fin 10000)\<rparr>, Fin 10000)"
proof -
  let ?s = "SensorSuite_init 10000 (33 / 10) None"
  have f: "mq4_ro_factor ?s = 4"
    by (simp add: SensorSuite_init_def RO_CLEAN_AIR_FACTOR_DEFAULT_def)
  then have "mq4_ro_factor ?s \<noteq> 0"
    by simp
  from calibrate_mq4_ro_result [OF _ this, of 50 "\<lambda>i. 13107" "Fin 40000"]
  show ?thesis
    using f by (auto simp: rs_value_clean_air)
qed


section \<open>Estimation\<close>

text \<open>
  Claim C7. With the default curve, a ratio of zero makes the power raise
  ZeroDivisionError inside the function, which returns \<^verbatim>\<open>None\<close> to its caller; an
  infinite ratio gives the number 0.
\<close>

theorem estimate_methane_ppm_degenerate:
  "estimate_methane_ppm_try (Fin 0) a_default b_default = Inl ZeroDivisionError
   \<and> estimate_methane_ppm (Fin 0) a_default b_default = None
   \<and> estimate_methane_ppm_try PInf a_default b_default = Inr (Fin 0)
   \<and> estimate_methane_ppm PInf a_default b_default = Some (Fin 0)"
  by (simp add: estimate_methane_ppm_def estimate_methane_ppm_try_def a_default_def
      b_default_def py_max_def)

section \<open>Classification\<close>

lemma f_le_not_lt: "f_le x y \<Longrightarrow> \<not> f_lt y x"
  by (cases x; cases y) auto

text \<open>
  Claim C4. The shelf-life label depends on the smoothed value alone: absent gives
  "Unknown", below 8 gives "5-7 Days", from 8 to below 10 gives "3-5 Days", from 10
  to below 12 gives "1-3 Days", and 12 or more gives "0 Days".
\<close>

theorem shelf_life_thresholds:
  "shelf_life None = ''Unknown''
   \<and> (f_lt v1 (Fin 8) \<longrightarrow> shelf_life (Some v1) = ''5-7 Days'')
   \<and> (f_le (Fin 8) v2 \<and> f_lt v2 (Fin 10) \<longrightarrow> shelf_life (Some v2) = ''3-5 Days'')
   \<and> (f_le (Fin 10) v3 \<and> f_lt v3 (Fin 12) \<longrightarrow> shelf_life (Some v3) = ''1-3 Days'')
   \<and> (f_le (Fin 12) v4 \<longrightarrow> shelf_life (Some v4) = ''0 Days'')"
proof (intro conjI impI)
  show "shelf_life None = ''Unknown''"
    by (simp add: shelf_life_def)
  show "shelf_life (Some v1) = ''5-7 Days''" if "f_lt v1 (Fin 8)"
    using that by (simp add: shelf_life_def METHANE_FRESH_def)
  show "shelf_life (Some v2) = ''3-5 Days''" if "f_le (Fin 8) v2 \<and> f_lt v2 (Fin 10)"
    using that f_le_not_lt [of "Fin 8" v2]
    by (simp add: shelf_life_def METHANE_FRESH_def METHANE_EARLY_def)
  show "shelf_life (Some v3) = ''1-3 Days''" if "f_le (Fin 10) v3 \<and> f_lt v3 (Fin 12)"
    using that f_le_not_lt [of "Fin 10" v3]
    by (cases v3)
       (auto simp: shelf_life_def METHANE_FRESH_def METHANE_EARLY_def METHANE_ACTIVE_def)
  show "shelf_life (Some v4) = ''0 Days''" if "f_le (Fin 12) v4"
    using that
    by (cases v4)
       (auto simp: shelf_life_def METHANE_FRESH_def METHANE_EARLY_def METHANE_ACTIVE_def)
qed

theorem shelf_life_thresholds_witness:
  "f_lt (Fin (799 / 100)) (Fin 8) \<and> shelf_life (Some (Fin (799 / 100))) = ''5-7 Days''
   \<and> f_le (Fin 8) (Fin 8) \<and> f_lt (Fin 8) (Fin 10) \<and> shelf_life (Some (Fin 8)) = ''3-5 Days''
   \<and> f_le (Fin 10) (Fin (11999 / 1000)) \<and> f_lt (Fin (11999 / 1000)) (Fin 12)
   \<and> shelf_life (Some (Fin (11999 / 1000))) = ''1-3 Days''
   \<and> f_le (Fin 12) (Fin 12) \<and> shelf_life (Some (Fin 12)) = ''0 Days''"
  using shelf_life_thresholds [of "Fin (799 / 100)" "Fin 8" "Fin (11999 / 1000)" "Fin 12"]
  by simp

section \<open>Smoothing\<close>

lemma smooth_methane_present:
  "\<exists>methane_avg.
     py_truediv (py_sum (if 5 < length (h @ [x]) then tl (h @ [x]) else h @ [x]))
       (Fin (of_nat (length (if 5 < length (h @ [x]) then tl (h @ [x]) else h @ [x]))))
       = Inr methane_avg
   \<and> smooth_methane h (Some x)
       = Inr (if 5 < length (h @ [x]) then tl (h @ [x]) else h @ [x], Some methane_avg)"
proof -
  let ?w = "if 5 < length (h @ [x]) then tl (h @ [x]) else h @ [x]"
  have "?w \<noteq> []"
    by (cases h) auto
  then have "real (length ?w) \<noteq> 0"
    by simp
  then obtain q where q: "py_truediv (py_sum ?w) (Fin (of_nat (length ?w))) = Inr q"
    using truediv_nonzero by blast
  then have "smooth_methane h (Some x) = Inr (?w, Some q)"
    by (simp add: smooth_methane_def Let_def del: py_truediv.simps)
  with q show ?thesis
    by blast
qed

text \<open>
  Claim C3, as the code has it. The smoothed value is absent exactly in the passes
  whose own reading is absent, whatever the history holds, and such a pass leaves the
  history as it was. In a pass with a reading the smoothed value is present and is the
  sum of the history, after the reading was appended, divided by its length.
\<close>

theorem smoothed_absent_iff_reading_absent:
  "smooth_methane h None = Inr (h, None)
   \<and> (\<exists>history methane_avg.
         smooth_methane h (Some x) = Inr (history, Some methane_avg)
       \<and> history \<noteq> [] \<and> last history = x
       \<and> py_truediv (py_sum history) (Fin (of_nat (length history))) = Inr methane_avg)"
proof -
  let ?w = "if 5 < length (h @ [x]) then tl (h @ [x]) else h @ [x]"
  obtain q where q: "py_truediv (py_sum ?w) (Fin (of_nat (length ?w))) = Inr q"
    and s: "smooth_methane h (Some x) = Inr (?w, Some q)"
    using smooth_methane_present [of h x] by blast
  have ne: "?w \<noteq> []"
    by (cases h) auto
  have "last ?w = x"
    by (cases h) (auto simp: last_tl)
  with q s ne have "\<exists>history methane_avg.
         smooth_methane h (Some x) = Inr (history, Some methane_avg)
       \<and> history \<noteq> [] \<and> last history = x
       \<and> py_truediv (py_sum history) (Fin (of_nat (length history))) = Inr methane_avg"
    by blast
  then show ?thesis
    by (simp add: smooth_methane_def del: py_truediv.simps)
qed

text \<open>
  Claim C3, as the spec states it, fails: after a pass that produced the reading 9, a
  pass without a reading has the history \<open>[9]\<close> and still no smoothed value.
\<close>

theorem smoothed_absent_with_history:
  "smooth_methane [] (Some (Fin 9)) = Inr ([Fin 9], Some (Fin 9))
   \<and> smooth_methane [Fin 9] None = Inr ([Fin 9], None)"
  by (simp add: smooth_methane_def py_sum_def)

text \<open>
  Claim C8. A history of at most 5 values stays at most 5 values long when a reading
  is pushed: the new history is the old one with the reading appended, without its
  oldest value when that makes six. Pushing 1, 2, 3, 4, 5, 6 in turn on the empty
  history ends with the history 2, 3, 4, 5, 6 and the average 4.
\<close>

theorem history_keeps_last_five:
  "(length h \<le> 5 \<longrightarrow>
      (\<exists>methane_avg.
          smooth_methane h (Some x) = Inr (drop (length h - 4) (h @ [x]), Some methane_avg)
        \<and> length (drop (length h - 4) (h @ [x])) \<le> 5))
   \<and> smooth_methane [] (Some (Fin 1)) = Inr ([Fin 1], Some (Fin 1))
   \<and> smooth_methane [Fin 1] (Some (Fin 2)) = Inr ([Fin 1, Fin 2], Some (Fin (3 / 2)))
   \<and> smooth_methane [Fin 1, Fin 2] (Some (Fin 3)) = Inr ([Fin 1, Fin 2, Fin 3], Some (Fin 2))
   \<and> smooth_methane [Fin 1, Fin 2, Fin 3] (Some (Fin 4))
       = Inr ([Fin 1, Fin 2, Fin 3, Fin 4], Some (Fin (5 / 2)))
   \<and> smooth_methane [Fin 1, Fin 2, Fin 3, Fin 4] (Some (Fin 5))
       = Inr ([Fin 1, Fin 2, Fin 3, Fin 4, Fin 5], Some (Fin 3))
   \<and> smooth_methane [Fin 1, Fin 2, Fin 3, Fin 4, Fin 5] (Some (Fin 6))
       = Inr ([Fin 2, Fin 3, Fin 4, Fin 5, Fin 6], Some (Fin 4))"
proof (intro conjI impI)
  assume len: "length h \<le> 5"
  let ?w = "if 5 < length (h @ [x]) then tl (h @ [x]) else h @ [x]"
  obtain q where s: "smooth_methane h (Some x) = Inr (?w, Some q)"
    using smooth_methane_present [of h x] by blast
  have eq: "?w = drop (length h - 4) (h @ [x])"
  proof (cases "length h = 5")
    case True
    then show ?thesis
      by (cases h) (simp_all add: drop_Suc)
  next
    case False
    then show ?thesis
      using len by simp
  qed
  have "length (drop (length h - 4) (h @ [x])) \<le> 5"
    using len by auto
  with s eq show "\<exists>methane_avg.
          smooth_methane h (Some x) = Inr (drop (length h - 4) (h @ [x]), Some methane_avg)
        \<and> length (drop (length h - 4) (h @ [x])) \<le> 5"
    by auto
qed (simp_all add: smooth_methane_def py_sum_def)

theorem history_keeps_last_five_witness:
  "length [Fin 1, Fin 2, Fin 3, Fin 4, Fin 5] \<le> 5
   \<and> smooth_methane [Fin 1, Fin 2, Fin 3, Fin 4, Fin 5] (Some (Fin 6))
       = Inr ([Fin 2, Fin 3, Fin 4, Fin 5, Fin 6], Some (Fin 4))
   \<and> length [Fin 2, Fin 3, Fin 4, Fin 5, Fin 6] \<le> 5"
  using history_keeps_last_five [of "[Fin 1, Fin 2, Fin 3, Fin 4, Fin 5]" "Fin 6"]
  by simp

section \<open>Reading before calibration\<close>

lemma read_all_saturated:
  assumes "0 < mq4_vref s" and "mq4_ro s = Some (Fin b)" and "b \<noteq> 0"
  shows "read_all s dht 65535 = (fst (read_dht dht), snd (read_dht dht), None)"
proof -
  have "voltage_from_raw s (read_mq4_raw 65535) = Fin (mq4_vref s)"
    by (simp add: voltage_from_raw_def read_mq4_raw_def)
  then have "get_rs s 65535 (Some (voltage_from_raw s (read_mq4_raw 65535))) = Inr (Fin 0)"
    using assms(1) by (simp add: get_rs_def f_ge_def)
  then have "read_mq4_ratio s 65535 = Inr (Fin 0)"
    using assms(2,3) by (simp add: read_mq4_ratio_def)
  then show ?thesis
    by (simp add: read_all_def estimate_methane_ppm_def estimate_methane_ppm_try_def
        a_default_def b_default_def split: prod.split)
qed




section \<open>Rendering and the main loop\<close>

lemma replicate_numeral: "replicate (numeral k) x = x # replicate (pred_numeral k) x"
  by (simp add: numeral_eq_Suc)

lemmas str_nat_numeral = str_nat.simps [of "numeral k"] for k

lemma str_nat_0: "str_nat 0 = ''0''"
  by (simp add: str_nat.simps [of 0] digit_char_def)

lemma str_nat_1: "str_nat (Suc 0) = ''1''"
  by (subst str_nat.simps) (simp add: digit_char_def)

lemmas format_simps =
  replicate_numeral str_nat_numeral str_nat_0 str_nat_1 digit_char_def zero_fill_def
  round_half_even_def str_int_def pad_def py_float_def

lemma methane_line_absent: "pad (methane_str None) 16 = ''Methane: N/A    ''"
  by (simp add: methane_str_def format_simps)

lemma shelf_line_unknown: "pad (shelf_str (Some (shelf_life None))) 16 = ''Unknown         ''"
  by (simp add: shelf_str_def shelf_life_def format_simps)

lemma temp_line: "pad (temp_str (Some (Fin 25))) 16 = ''Temp: 25.0C     ''"
  by (simp add: temp_str_def format_simps)

lemma humid_line: "pad (humid_str (Some (Fin 80))) 16 = ''Humidity: 80%   ''"
  by (simp add: humid_str_def format_simps)

lemma main_cycle_absent:
  assumes "read_all (sensors st) dht adc = (t, h, None)"
  shows "main_cycle st dht adc = Inl TypeError"
  using assms by (simp add: main_cycle_def smooth_methane_def format_methane_avg_def)

lemma main_start_clean_air:
  "main_start (\<lambda>i. 13107)
     = Inr \<lparr> sensors = (SensorSuite_init 10000 (33 / 10) None)\<lparr>mq4_ro := Some (Fin 10000)\<rparr>,
            display = BananaLcdDisplay_init, methane_history = [] \<rparr>"
  by (simp add: main_start_def calibrate_clean_air)

lemma powr_4_minus_half: "(4::real) powr - (1 / 2) = 1 / 2"
proof -
  have "(4::real) powr - (1 / 2) = 1 / (4 powr (1 / 2))"
    by (rule powr_minus_divide)
  moreover have "(4::real) powr (1 / 2) = sqrt 4"
    by (rule powr_half_sqrt) simp
  ultimately show ?thesis by simp
qed

lemma read_all_clean_air:
  "read_all ((SensorSuite_init 10000 (33 / 10) None)\<lparr>mq4_ro := Some (Fin 10000)\<rparr>)
     (Some (25, 80)) 13107 = (Some 25, Some 80, Some (Fin 6))"
  by (simp add: read_all_def read_dht_def read_mq4_ratio_def get_rs_def voltage_from_raw_def
      read_mq4_raw_def SensorSuite_init_def f_ge_def f_sub_def estimate_methane_ppm_def
      estimate_methane_ppm_try_def a_default_def b_default_def py_max_def powr_4_minus_half)

lemma first_cycle:
  "main_cycle \<lparr> sensors = (SensorSuite_init 10000 (33 / 10) None)\<lparr>mq4_ro := Some (Fin 10000)\<rparr>,
            display = BananaLcdDisplay_init, methane_history = [] \<rparr> (Some (25, 80)) 13107
   = Inr \<lparr> sensors = (SensorSuite_init 10000 (33 / 10) None)\<lparr>mq4_ro := Some (Fin 10000)\<rparr>,
            display = \<lparr> lcd = [Clear, MoveTo 0 0, PutStr ''Temp: 25.0C     '',
                               MoveTo 0 1, PutStr ''Humidity: 80%   ''],
                        current_screen = 1 \<rparr>,
            methane_history = [Fin 6] \<rparr>"
  by (simp add: main_cycle_def read_all_clean_air smooth_methane_def py_sum_def
      format_methane_avg_def update_def display_screen_1_def BananaLcdDisplay_init_def
      temp_line humid_line)

text \<open>
  Claim C2 says that a pass whose concentration value is absent completes with
  placeholder outputs and never raises. The code does otherwise. The program is started
  in clean air (every calibration sample 13107, baseline 10000). Its first pass reads
  the sample 13107, appends the reading 6 and shows the temperature screen. Its second
  pass reads the full-scale sample 65535: the resistance is 0, the ratio is 0, the
  estimate drops the reading, the average is absent, and formatting it for the status
  line raises. The exception leaves the pass and the loop.
\<close>

theorem absent_reading_stops_main_loop:
  "\<exists>st0 st1.
      main_start (\<lambda>i. 13107) = Inr st0
    \<and> main_cycle st0 (Some (25, 80)) 13107 = Inr st1
    \<and> methane_history st1 = [Fin 6]
    \<and> read_all (sensors st1) (Some (25, 80)) 65535 = (Some 25, Some 80, None)
    \<and> main_cycle st1 (Some (25, 80)) 65535 = Inl TypeError
    \<and> main_loop st0 [(Some (25, 80), 13107), (Some (25, 80), 65535)] = Inl TypeError"
proof -
  let ?s = "(SensorSuite_init 10000 (33 / 10) None)\<lparr>mq4_ro := Some (Fin 10000)\<rparr>"
  let ?st0 = "\<lparr> sensors = ?s, display = BananaLcdDisplay_init, methane_history = [] \<rparr>"
  let ?st1 = "\<lparr> sensors = ?s,
      display = \<lparr> lcd = [Clear, MoveTo 0 0, PutStr ''Temp: 25.0C     '',
                         MoveTo 0 1, PutStr ''Humidity: 80%   ''],
                  current_screen = 1 \<rparr>,
      methane_history = [Fin 6] \<rparr>"
  have r: "read_all (sensors ?st1) (Some (25, 80)) 65535 = (Some 25, Some 80, None)"
    using read_all_saturated [of ?s 10000 "Some (25, 80)"]
    by (simp add: SensorSuite_init_def read_dht_def)
  have c2: "main_cycle ?st1 (Some (25, 80)) 65535 = Inl TypeError"
    using r by (rule main_cycle_absent)
  have l: "main_loop ?st0 [(Some (25, 80), 13107), (Some (25, 80), 65535)] = Inl TypeError"
    by (simp only: main_loop.simps first_cycle c2 sum.case)
  have h: "methane_history ?st1 = [Fin 6]"
    by simp
  from main_start_clean_air first_cycle h r c2 l show ?thesis
    by blast
qed

lemma main_cycle_returns_present:
  assumes "main_cycle st dht adc = Inr st'"
  shows "\<exists>t h m. read_all (sensors st) dht adc = (t, h, Some m)"
proof -
  obtain t h m where r: "read_all (sensors st) dht adc = (t, h, m)"
    by (cases "read_all (sensors st) dht adc") auto
  with assms main_cycle_absent [of st dht adc t h] have "m \<noteq> None"
    by auto
  with r show ?thesis
    by auto
qed

lemma update_absent_methane:
  assumes "current_screen d \<noteq> 0"
  shows "lcd (update d t h None (Some (shelf_life None)))
    = lcd d @ [Clear, MoveTo 0 0, PutStr ''Methane: N/A    '',
               MoveTo 0 1, PutStr ''Unknown         '']"
  using assms
  by (simp add: update_def display_screen_2_def methane_line_absent shelf_line_unknown)

text \<open>
  Claim C1 says that a pass with an absent methane value shows "Methane: N/A" on the
  second screen. \<^verbatim>\<open>update\<close> does show that line when it is given \<^verbatim>\<open>None\<close> on
  the turn of the second screen, but in the loop such a pass never reaches the display.
  After the start in clean air and a first pass that shows the first screen, the second
  pass is the turn of the second screen; it reads the full-scale sample 65535, its
  methane value is absent, and it raises while formatting the status line, before
  \<^verbatim>\<open>display.update\<close> is called: nothing is shown. (A pass that returns had a
  present value, \<open>main_cycle_returns_present\<close>.)
\<close>

theorem absent_methane_screen_not_rendered:
  "\<exists>st0 st1.
      main_start (\<lambda>i. 13107) = Inr st0
    \<and> main_cycle st0 (Some (25, 80)) 13107 = Inr st1
    \<and> current_screen (display st1) = 1
    \<and> read_all (sensors st1) (Some (25, 80)) 65535 = (Some 25, Some 80, None)
    \<and> main_cycle st1 (Some (25, 80)) 65535 = Inl TypeError
    \<and> lcd (update (display st1) (Some (Fin 25)) (Some (Fin 80)) None (Some (shelf_life None)))
        = lcd (display st1) @ [Clear, MoveTo 0 0, PutStr ''Methane: N/A    '',
                               MoveTo 0 1, PutStr ''Unknown         '']"
proof -
  let ?s = "(SensorSuite_init 10000 (33 / 10) None)\<lparr>mq4_ro := Some (Fin 10000)\<rparr>"
  let ?st0 = "\<lparr> sensors = ?s, display = BananaLcdDisplay_init, methane_history = [] \<rparr>"
  let ?st1 = "\<lparr> sensors = ?s,
      display = \<lparr> lcd = [Clear, MoveTo 0 0, PutStr ''Temp: 25.0C     '',
                         MoveTo 0 1, PutStr ''Humidity: 80%   ''],
                  current_screen = 1 \<rparr>,
      methane_history = [Fin 6] \<rparr>"
  have r: "read_all (sensors ?st1) (Some (25, 80)) 65535 = (Some 25, Some 80, None)"
    using read_all_saturated [of ?s 10000 "Some (25, 80)"]
    by (simp add: SensorSuite_init_def read_dht_def)
  have c: "main_cycle ?st1 (Some (25, 80)) 65535 = Inl TypeError"
    using r by (rule main_cycle_absent)
  have k: "current_screen (display ?st1) = 1"
    by simp
  then have "current_screen (display ?st1) \<noteq> 0"
    by simp
  note u = update_absent_methane [OF this, of "Some (Fin 25)" "Some (Fin 80)"]
  from main_start_clean_air first_cycle k r c u show ?thesis
    by blast
qed

text \<open>
  Along every run of the loop that returns, a history of at most 5 values stays so.
\<close>

lemma main_cycle_history_bounded:
  assumes "main_cycle st dht adc = Inr st'" and "length (methane_history st) \<le> 5"
  shows "length (methane_history st') \<le> 5"
proof -
  obtain t h m where r: "read_all (sensors st) dht adc = (t, h, m)"
    by (cases "read_all (sensors st) dht adc") auto
  show ?thesis
  proof (cases m)
    case None
    with r assms(1) show ?thesis
      by (simp add: main_cycle_absent)
  next
    case (Some x)
    let ?w = "if 5 < length (methane_history st @ [x]) then tl (methane_history st @ [x])
              else methane_history st @ [x]"
    obtain q where "smooth_methane (methane_history st) (Some x) = Inr (?w, Some q)"
      using smooth_methane_present [of "methane_history st" x] by blast
    with r Some assms(1) have "methane_history st' = ?w"
      by (auto simp: main_cycle_def format_methane_avg_def simp del: py_truediv.simps)
    with assms(2) show ?thesis
      by auto
  qed
qed

lemma main_loop_history_bounded:
  "main_loop st reads = Inr st' \<Longrightarrow> length (methane_history st) \<le> 5
     \<Longrightarrow> length (methane_history st') \<le> 5"
proof (induction reads arbitrary: st)
  case Nil
  then show ?case by simp
next
  case (Cons r reads)
  obtain dht adc where r: "r = (dht, adc)"
    by (cases r)
  from Cons.prems(1) r obtain st1 where
    c: "main_cycle st dht adc = Inr st1" and l: "main_loop st1 reads = Inr st'"
    by (auto split: sum.splits)
  from main_cycle_history_bounded [OF c Cons.prems(2)] l show ?case
    by (rule Cons.IH [rotated])
qed

section \<open>Calibration in double precision\<close>

lemma double_exponent_eq:
  assumes "2 powi n \<le> x" and "x < 2 powi (n + 1)" and "- 1100 \<le> n"
  shows "double_exponent x = n"
proof -
  define k where "k = nat (n + 1100)"
  have k: "int k = n + 1100"
    using assms(3) by (simp add: k_def)
  have p: "(2::real) powi n * 2 ^ 1100 = 2 ^ k"
  proof -
    have "(2::real) powi n * 2 ^ 1100 = 2 powi n * 2 powi 1100"
      by simp
    also have "\<dots> = 2 powi (n + 1100)"
      by (simp add: power_int_add)
    also have "\<dots> = 2 ^ k"
      using k by (metis power_int_of_nat)
    finally show ?thesis .
  qed
  have p1: "(2::real) powi (n + 1) * 2 ^ 1100 = 2 ^ (k + 1)"
  proof -
    have "(2::real) powi (n + 1) = 2 powi n * 2"
      by (simp add: power_int_add)
    with p show ?thesis
      by (simp add: mult.commute mult.left_commute)
  qed
  let ?y = "x * 2 ^ 1100"
  have lo: "2 ^ k \<le> ?y"
    using assms(1) p by (metis mult_right_mono zero_le_numeral zero_le_power)
  have hi: "?y < 2 ^ (k + 1)"
  proof -
    have "x * 2 ^ 1100 < 2 powi (n + 1) * 2 ^ 1100"
      using assms(2) by (simp add: mult_strict_right_mono)
    with p1 show ?thesis by simp
  qed
  have flo: "(2::int) ^ k \<le> \<lfloor>?y\<rfloor>"
    using lo by (simp add: le_floor_iff)
  have fhi: "\<lfloor>?y\<rfloor> < (2::int) ^ (k + 1)"
    using hi by (simp add: floor_less_iff)
  have "bitlen \<lfloor>?y\<rfloor> \<le> int k + 1"
    using fhi by (simp add: bitlen_le_iff_power nat_add_distrib)
  moreover have "int k + 1 \<le> bitlen \<lfloor>?y\<rfloor>"
    using flo by (simp add: bitlen_ge_iff_power nat_add_distrib)
  ultimately have "bitlen \<lfloor>?y\<rfloor> = int k + 1"
    by simp
  then show ?thesis
    using k by (simp add: double_exponent_def)
qed

lemma round_double_unit:
  assumes "ulp = 2 powi j" and "2 ^ 52 * ulp \<le> x" and "x < 2 ^ 53 * ulp" and "- 1152 \<le> j"
  shows "round_double x = of_int (round_half_even (x / ulp)) * ulp"
proof -
  have u: "0 < ulp"
    using assms(1) by simp
  then have x: "0 < x"
    using assms(2) by (smt (verit) mult_pos_pos zero_less_numeral zero_less_power)
  have "(2::real) powi (j + 52) = 2 powi j * 2 powi 52"
    by (simp add: power_int_add)
  then have a: "(2::real) powi (j + 52) = 2 ^ 52 * ulp"
    using assms(1) by simp
  have "(2::real) powi (j + 52 + 1) = 2 powi j * 2 powi 53"
    by (simp add: power_int_add)
  then have b: "(2::real) powi (j + 52 + 1) = 2 ^ 53 * ulp"
    using assms(1) by simp
  have "double_exponent x = j + 52"
    using assms(2,3,4) a b by (intro double_exponent_eq) simp_all
  then show ?thesis
    using x assms(1) by (simp add: round_double_def Let_def)
qed

lemma round_double_0: "round_double 0 = 0"
  by (simp add: round_double_def)






lemma double_trace:
  shows rs_98: "rs_value_double (SensorSuite_init 10000 (round_double (33 / 10)) None) 98 = Fin (3584818558014693 / 536870912)"
    and sum_98: "foldl fl_add (Fin 0) (replicate 50 (Fin (3584818558014693 / 536870912))) = Fin (2800639498448977 / 8388608)"
    and avg_98: "fl_truediv (Fin (2800639498448977 / 8388608)) (Fin 50) = Inr (Fin (7169637116029381 / 1073741824))"
    and ro_98: "fl_truediv (Fin (7169637116029381 / 1073741824)) (Fin 4) = Inr (Fin (7169637116029381 / 4294967296))"
    and quarter_98: "fl_truediv (Fin (3584818558014693 / 536870912)) (Fin 4) = Inr (Fin (3584818558014693 / 2147483648))"
proof -
  have vref: "round_double (33 / 10) = 3715469692580659 / 1125899906842624"
    using round_double_unit [of "1 / 2 ^ 51" "- 51" "33 / 10"]
    by (simp add: fl_def round_half_even_def power_int_minus_divide)
  have q: "fl (Fin (98 / 65535)) = Fin (6896242157715481 / 4611686018427387904)"
    using round_double_unit [of "1 / 2 ^ 62" "- 62" "98 / 65535"]
    by (simp add: fl_def round_half_even_def power_int_minus_divide)
  have v: "fl_mul (Fin (6896242157715481 / 4611686018427387904)) (Fin (3715469692580659 / 1125899906842624)) = Fin (711174972514409 / 144115188075855872)"
    using round_double_unit [of "1 / 2 ^ 60" "- 60" "6896242157715481 / 4611686018427387904 * (3715469692580659 / 1125899906842624)"]
    by (simp add: fl_mul_def fl_def round_half_even_def power_int_minus_divide)
  have d: "fl_sub (Fin (3715469692580659 / 1125899906842624)) (Fin (711174972514409 / 144115188075855872)) = Fin (1854956819053945 / 562949953421312)"
    using round_double_unit [of "1 / 2 ^ 51" "- 51" "3715469692580659 / 1125899906842624 - 711174972514409 / 144115188075855872"]
    by (simp add: fl_sub_def f_sub_def fl_def round_half_even_def power_int_minus_divide)
  have p: "fl_mul (Fin 10000) (Fin (1854956819053945 / 562949953421312)) = Fin (1132175792879605 / 34359738368)"
    using round_double_unit [of "1 / 2 ^ 37" "- 37" "10000 * (1854956819053945 / 562949953421312)"]
    by (simp add: fl_mul_def fl_def round_half_even_def power_int_minus_divide)
  have rs: "fl_truediv (Fin (1132175792879605 / 34359738368)) (Fin (711174972514409 / 144115188075855872)) = Inr (Fin (3584818558014693 / 536870912))"
    using round_double_unit [of "1 / 2 ^ 30" "- 30" "1132175792879605 / 34359738368 / (711174972514409 / 144115188075855872)"]
    by (simp add: fl_truediv_def fl_def round_half_even_def power_int_minus_divide)
  show "rs_value_double (SensorSuite_init 10000 (round_double (33 / 10)) None) 98 = Fin (3584818558014693 / 536870912)"
    by (simp add: rs_value_double_def get_rs_double_def voltage_from_raw_double_def
        read_mq4_raw_def SensorSuite_init_def f_ge_def vref q v d p rs)
  have a1: "fl_add (Fin (0)) (Fin (3584818558014693 / 536870912)) = Fin (3584818558014693 / 536870912)"
    using round_double_unit [of "1 / 2 ^ 30" "- 30" "0 + 3584818558014693 / 536870912"]
    by (simp add: fl_add_def fl_def round_half_even_def power_int_minus_divide)
  have a2: "fl_add (Fin (3584818558014693 / 536870912)) (Fin (3584818558014693 / 536870912)) = Fin (3584818558014693 / 268435456)"
    using round_double_unit [of "1 / 2 ^ 29" "- 29" "3584818558014693 / 536870912 + 3584818558014693 / 536870912"]
    by (simp add: fl_add_def fl_def round_half_even_def power_int_minus_divide)
  have a3: "fl_add (Fin (3584818558014693 / 268435456)) (Fin (3584818558014693 / 536870912)) = Fin (672153479627755 / 33554432)"
    using round_double_unit [of "1 / 2 ^ 28" "- 28" "3584818558014693 / 268435456 + 3584818558014693 / 536870912"]
    by (simp add: fl_add_def fl_def round_half_even_def power_int_minus_divide)
  have a4: "fl_add (Fin (672153479627755 / 33554432)) (Fin (3584818558014693 / 536870912)) = Fin (3584818558014693 / 134217728)"
    using round_double_unit [of "1 / 2 ^ 28" "- 28" "672153479627755 / 33554432 + 3584818558014693 / 536870912"]
    by (simp add: fl_add_def fl_def round_half_even_def power_int_minus_divide)
  have a5: "fl_add (Fin (3584818558014693 / 134217728)) (Fin (3584818558014693 / 536870912)) = Fin (2240511598759183 / 67108864)"
    using round_double_unit [of "1 / 2 ^ 28" "- 28" "3584818558014693 / 134217728 + 3584818558014693 / 536870912"]
    by (simp add: fl_add_def fl_def round_half_even_def power_int_minus_divide)
  have a6: "fl_add (Fin (2240511598759183 / 67108864)) (Fin (3584818558014693 / 536870912)) = Fin (5377227837022039 / 134217728)"
    using round_double_unit [of "1 / 2 ^ 27" "- 27" "2240511598759183 / 67108864 + 3584818558014693 / 536870912"]
    by (simp add: fl_add_def fl_def round_half_even_def power_int_minus_divide)
  have a7: "fl_add (Fin (5377227837022039 / 134217728)) (Fin (3584818558014693 / 536870912)) = Fin (392089529782857 / 8388608)"
    using round_double_unit [of "1 / 2 ^ 27" "- 27" "5377227837022039 / 134217728 + 3584818558014693 / 536870912"]
    by (simp add: fl_add_def fl_def round_half_even_def power_int_minus_divide)
  have a8: "fl_add (Fin (392089529782857 / 8388608)) (Fin (3584818558014693 / 536870912)) = Fin (7169637116029385 / 134217728)"
    using round_double_unit [of "1 / 2 ^ 27" "- 27" "392089529782857 / 8388608 + 3584818558014693 / 536870912"]
    by (simp add: fl_add_def fl_def round_half_even_def power_int_minus_divide)
  have a9: "fl_add (Fin (7169637116029385 / 134217728)) (Fin (3584818558014693 / 536870912)) = Fin (4032920877766529 / 67108864)"
    using round_double_unit [of "1 / 2 ^ 27" "- 27" "7169637116029385 / 134217728 + 3584818558014693 / 536870912"]
    by (simp add: fl_add_def fl_def round_half_even_def power_int_minus_divide)
  have a10: "fl_add (Fin (4032920877766529 / 67108864)) (Fin (3584818558014693 / 536870912)) = Fin (8962046395036731 / 134217728)"
    using round_double_unit [of "1 / 2 ^ 27" "- 27" "4032920877766529 / 67108864 + 3584818558014693 / 536870912"]
    by (simp add: fl_add_def fl_def round_half_even_def power_int_minus_divide)
  have a11: "fl_add (Fin (8962046395036731 / 134217728)) (Fin (3584818558014693 / 536870912)) = Fin (2464562758635101 / 33554432)"
    using round_double_unit [of "1 / 2 ^ 26" "- 26" "8962046395036731 / 134217728 + 3584818558014693 / 536870912"]
    by (simp add: fl_add_def fl_def round_half_even_def power_int_minus_divide)
  have a12: "fl_add (Fin (2464562758635101 / 33554432)) (Fin (3584818558014693 / 536870912)) = Fin (5377227837022039 / 67108864)"
    using round_double_unit [of "1 / 2 ^ 26" "- 26" "2464562758635101 / 33554432 + 3584818558014693 / 536870912"]
    by (simp add: fl_add_def fl_def round_half_even_def power_int_minus_divide)
  have a13: "fl_add (Fin (5377227837022039 / 67108864)) (Fin (3584818558014693 / 536870912)) = Fin (1456332539193469 / 16777216)"
    using round_double_unit [of "1 / 2 ^ 26" "- 26" "5377227837022039 / 67108864 + 3584818558014693 / 536870912"]
    by (simp add: fl_add_def fl_def round_half_even_def power_int_minus_divide)
  have a14: "fl_add (Fin (1456332539193469 / 16777216)) (Fin (3584818558014693 / 536870912)) = Fin (6273432476525713 / 67108864)"
    using round_double_unit [of "1 / 2 ^ 26" "- 26" "1456332539193469 / 16777216 + 3584818558014693 / 536870912"]
    by (simp add: fl_add_def fl_def round_half_even_def power_int_minus_divide)
  have a15: "fl_add (Fin (6273432476525713 / 67108864)) (Fin (3584818558014693 / 536870912)) = Fin (3360767398138775 / 33554432)"
    using round_double_unit [of "1 / 2 ^ 26" "- 26" "6273432476525713 / 67108864 + 3584818558014693 / 536870912"]
    by (simp add: fl_add_def fl_def round_half_even_def power_int_minus_divide)
  have a16: "fl_add (Fin (3360767398138775 / 33554432)) (Fin (3584818558014693 / 536870912)) = Fin (7169637116029387 / 67108864)"
    using round_double_unit [of "1 / 2 ^ 26" "- 26" "3360767398138775 / 33554432 + 3584818558014693 / 536870912"]
    by (simp add: fl_add_def fl_def round_half_even_def power_int_minus_divide)
  have a17: "fl_add (Fin (7169637116029387 / 67108864)) (Fin (3584818558014693 / 536870912)) = Fin (952217429472653 / 8388608)"
    using round_double_unit [of "1 / 2 ^ 26" "- 26" "7169637116029387 / 67108864 + 3584818558014693 / 536870912"]
    by (simp add: fl_add_def fl_def round_half_even_def power_int_minus_divide)
  have a18: "fl_add (Fin (952217429472653 / 8388608)) (Fin (3584818558014693 / 536870912)) = Fin (8065841755533061 / 67108864)"
    using round_double_unit [of "1 / 2 ^ 26" "- 26" "952217429472653 / 8388608 + 3584818558014693 / 536870912"]
    by (simp add: fl_add_def fl_def round_half_even_def power_int_minus_divide)
  have a19: "fl_add (Fin (8065841755533061 / 67108864)) (Fin (3584818558014693 / 536870912)) = Fin (4256972037642449 / 33554432)"
    using round_double_unit [of "1 / 2 ^ 26" "- 26" "8065841755533061 / 67108864 + 3584818558014693 / 536870912"]
    by (simp add: fl_add_def fl_def round_half_even_def power_int_minus_divide)
  have a20: "fl_add (Fin (4256972037642449 / 33554432)) (Fin (3584818558014693 / 536870912)) = Fin (8962046395036735 / 67108864)"
    using round_double_unit [of "1 / 2 ^ 26" "- 26" "4256972037642449 / 33554432 + 3584818558014693 / 536870912"]
    by (simp add: fl_add_def fl_def round_half_even_def power_int_minus_divide)
  have a21: "fl_add (Fin (8962046395036735 / 67108864)) (Fin (3584818558014693 / 536870912)) = Fin (2352537178697143 / 16777216)"
    using round_double_unit [of "1 / 2 ^ 25" "- 25" "8962046395036735 / 67108864 + 3584818558014693 / 536870912"]
    by (simp add: fl_add_def fl_def round_half_even_def power_int_minus_divide)
  have a22: "fl_add (Fin (2352537178697143 / 16777216)) (Fin (3584818558014693 / 536870912)) = Fin (1232281379317551 / 8388608)"
    using round_double_unit [of "1 / 2 ^ 25" "- 25" "2352537178697143 / 16777216 + 3584818558014693 / 536870912"]
    by (simp add: fl_add_def fl_def round_half_even_def power_int_minus_divide)
  have a23: "fl_add (Fin (1232281379317551 / 8388608)) (Fin (3584818558014693 / 536870912)) = Fin (2576588338573061 / 16777216)"
    using round_double_unit [of "1 / 2 ^ 25" "- 25" "1232281379317551 / 8388608 + 3584818558014693 / 536870912"]
    by (simp add: fl_add_def fl_def round_half_even_def power_int_minus_divide)
  have a24: "fl_add (Fin (2576588338573061 / 16777216)) (Fin (3584818558014693 / 536870912)) = Fin (672153479627755 / 4194304)"
    using round_double_unit [of "1 / 2 ^ 25" "- 25" "2576588338573061 / 16777216 + 3584818558014693 / 536870912"]
    by (simp add: fl_add_def fl_def round_half_even_def power_int_minus_divide)
  have a25: "fl_add (Fin (672153479627755 / 4194304)) (Fin (3584818558014693 / 536870912)) = Fin (2800639498448979 / 16777216)"
    using round_double_unit [of "1 / 2 ^ 25" "- 25" "672153479627755 / 4194304 + 3584818558014693 / 536870912"]
    by (simp add: fl_add_def fl_def round_half_even_def power_int_minus_divide)
  have a26: "fl_add (Fin (2800639498448979 / 16777216)) (Fin (3584818558014693 / 536870912)) = Fin (1456332539193469 / 8388608)"
    using round_double_unit [of "1 / 2 ^ 25" "- 25" "2800639498448979 / 16777216 + 3584818558014693 / 536870912"]
    by (simp add: fl_add_def fl_def round_half_even_def power_int_minus_divide)
  have a27: "fl_add (Fin (1456332539193469 / 8388608)) (Fin (3584818558014693 / 536870912)) = Fin (3024690658324897 / 16777216)"
    using round_double_unit [of "1 / 2 ^ 25" "- 25" "1456332539193469 / 8388608 + 3584818558014693 / 536870912"]
    by (simp add: fl_add_def fl_def round_half_even_def power_int_minus_divide)
  have a28: "fl_add (Fin (3024690658324897 / 16777216)) (Fin (3584818558014693 / 536870912)) = Fin (392089529782857 / 2097152)"
    using round_double_unit [of "1 / 2 ^ 25" "- 25" "3024690658324897 / 16777216 + 3584818558014693 / 536870912"]
    by (simp add: fl_add_def fl_def round_half_even_def power_int_minus_divide)
  have a29: "fl_add (Fin (392089529782857 / 2097152)) (Fin (3584818558014693 / 536870912)) = Fin (3248741818200815 / 16777216)"
    using round_double_unit [of "1 / 2 ^ 25" "- 25" "392089529782857 / 2097152 + 3584818558014693 / 536870912"]
    by (simp add: fl_add_def fl_def round_half_even_def power_int_minus_divide)
  have a30: "fl_add (Fin (3248741818200815 / 16777216)) (Fin (3584818558014693 / 536870912)) = Fin (1680383699069387 / 8388608)"
    using round_double_unit [of "1 / 2 ^ 25" "- 25" "3248741818200815 / 16777216 + 3584818558014693 / 536870912"]
    by (simp add: fl_add_def fl_def round_half_even_def power_int_minus_divide)
  have a31: "fl_add (Fin (1680383699069387 / 8388608)) (Fin (3584818558014693 / 536870912)) = Fin (3472792978076733 / 16777216)"
    using round_double_unit [of "1 / 2 ^ 25" "- 25" "1680383699069387 / 8388608 + 3584818558014693 / 536870912"]
    by (simp add: fl_add_def fl_def round_half_even_def power_int_minus_divide)
  have a32: "fl_add (Fin (3472792978076733 / 16777216)) (Fin (3584818558014693 / 536870912)) = Fin (896204639503673 / 4194304)"
    using round_double_unit [of "1 / 2 ^ 25" "- 25" "3472792978076733 / 16777216 + 3584818558014693 / 536870912"]
    by (simp add: fl_add_def fl_def round_half_even_def power_int_minus_divide)
  have a33: "fl_add (Fin (896204639503673 / 4194304)) (Fin (3584818558014693 / 536870912)) = Fin (3696844137952651 / 16777216)"
    using round_double_unit [of "1 / 2 ^ 25" "- 25" "896204639503673 / 4194304 + 3584818558014693 / 536870912"]
    by (simp add: fl_add_def fl_def round_half_even_def power_int_minus_divide)
  have a34: "fl_add (Fin (3696844137952651 / 16777216)) (Fin (3584818558014693 / 536870912)) = Fin (1904434858945305 / 8388608)"
    using round_double_unit [of "1 / 2 ^ 25" "- 25" "3696844137952651 / 16777216 + 3584818558014693 / 536870912"]
    by (simp add: fl_add_def fl_def round_half_even_def power_int_minus_divide)
  have a35: "fl_add (Fin (1904434858945305 / 8388608)) (Fin (3584818558014693 / 536870912)) = Fin (3920895297828569 / 16777216)"
    using round_double_unit [of "1 / 2 ^ 25" "- 25" "1904434858945305 / 8388608 + 3584818558014693 / 536870912"]
    by (simp add: fl_add_def fl_def round_half_even_def power_int_minus_divide)
  have a36: "fl_add (Fin (3920895297828569 / 16777216)) (Fin (3584818558014693 / 536870912)) = Fin (31507194357551 / 131072)"
    using round_double_unit [of "1 / 2 ^ 25" "- 25" "3920895297828569 / 16777216 + 3584818558014693 / 536870912"]
    by (simp add: fl_add_def fl_def round_half_even_def power_int_minus_divide)
  have a37: "fl_add (Fin (31507194357551 / 131072)) (Fin (3584818558014693 / 536870912)) = Fin (4144946457704487 / 16777216)"
    using round_double_unit [of "1 / 2 ^ 25" "- 25" "31507194357551 / 131072 + 3584818558014693 / 536870912"]
    by (simp add: fl_add_def fl_def round_half_even_def power_int_minus_divide)
  have a38: "fl_add (Fin (4144946457704487 / 16777216)) (Fin (3584818558014693 / 536870912)) = Fin (2128486018821223 / 8388608)"
    using round_double_unit [of "1 / 2 ^ 25" "- 25" "4144946457704487 / 16777216 + 3584818558014693 / 536870912"]
    by (simp add: fl_add_def fl_def round_half_even_def power_int_minus_divide)
  have a39: "fl_add (Fin (2128486018821223 / 8388608)) (Fin (3584818558014693 / 536870912)) = Fin (4368997617580405 / 16777216)"
    using round_double_unit [of "1 / 2 ^ 25" "- 25" "2128486018821223 / 8388608 + 3584818558014693 / 536870912"]
    by (simp add: fl_add_def fl_def round_half_even_def power_int_minus_divide)
  have a40: "fl_add (Fin (4368997617580405 / 16777216)) (Fin (3584818558014693 / 536870912)) = Fin (1120255799379591 / 4194304)"
    using round_double_unit [of "1 / 2 ^ 25" "- 25" "4368997617580405 / 16777216 + 3584818558014693 / 536870912"]
    by (simp add: fl_add_def fl_def round_half_even_def power_int_minus_divide)
  have a41: "fl_add (Fin (1120255799379591 / 4194304)) (Fin (3584818558014693 / 536870912)) = Fin (4593048777456323 / 16777216)"
    using round_double_unit [of "1 / 2 ^ 24" "- 24" "1120255799379591 / 4194304 + 3584818558014693 / 536870912"]
    by (simp add: fl_add_def fl_def round_half_even_def power_int_minus_divide)
  have a42: "fl_add (Fin (4593048777456323 / 16777216)) (Fin (3584818558014693 / 536870912)) = Fin (2352537178697141 / 8388608)"
    using round_double_unit [of "1 / 2 ^ 24" "- 24" "4593048777456323 / 16777216 + 3584818558014693 / 536870912"]
    by (simp add: fl_add_def fl_def round_half_even_def power_int_minus_divide)
  have a43: "fl_add (Fin (2352537178697141 / 8388608)) (Fin (3584818558014693 / 536870912)) = Fin (4817099937332241 / 16777216)"
    using round_double_unit [of "1 / 2 ^ 24" "- 24" "2352537178697141 / 8388608 + 3584818558014693 / 536870912"]
    by (simp add: fl_add_def fl_def round_half_even_def power_int_minus_divide)
  have a44: "fl_add (Fin (4817099937332241 / 16777216)) (Fin (3584818558014693 / 536870912)) = Fin (616140689658775 / 2097152)"
    using round_double_unit [of "1 / 2 ^ 24" "- 24" "4817099937332241 / 16777216 + 3584818558014693 / 536870912"]
    by (simp add: fl_add_def fl_def round_half_even_def power_int_minus_divide)
  have a45: "fl_add (Fin (616140689658775 / 2097152)) (Fin (3584818558014693 / 536870912)) = Fin (5041151097208159 / 16777216)"
    using round_double_unit [of "1 / 2 ^ 24" "- 24" "616140689658775 / 2097152 + 3584818558014693 / 536870912"]
    by (simp add: fl_add_def fl_def round_half_even_def power_int_minus_divide)
  have a46: "fl_add (Fin (5041151097208159 / 16777216)) (Fin (3584818558014693 / 536870912)) = Fin (2576588338573059 / 8388608)"
    using round_double_unit [of "1 / 2 ^ 24" "- 24" "5041151097208159 / 16777216 + 3584818558014693 / 536870912"]
    by (simp add: fl_add_def fl_def round_half_even_def power_int_minus_divide)
  have a47: "fl_add (Fin (2576588338573059 / 8388608)) (Fin (3584818558014693 / 536870912)) = Fin (5265202257084077 / 16777216)"
    using round_double_unit [of "1 / 2 ^ 24" "- 24" "2576588338573059 / 8388608 + 3584818558014693 / 536870912"]
    by (simp add: fl_add_def fl_def round_half_even_def power_int_minus_divide)
  have a48: "fl_add (Fin (5265202257084077 / 16777216)) (Fin (3584818558014693 / 536870912)) = Fin (1344306959255509 / 4194304)"
    using round_double_unit [of "1 / 2 ^ 24" "- 24" "5265202257084077 / 16777216 + 3584818558014693 / 536870912"]
    by (simp add: fl_add_def fl_def round_half_even_def power_int_minus_divide)
  have a49: "fl_add (Fin (1344306959255509 / 4194304)) (Fin (3584818558014693 / 536870912)) = Fin (5489253416959995 / 16777216)"
    using round_double_unit [of "1 / 2 ^ 24" "- 24" "1344306959255509 / 4194304 + 3584818558014693 / 536870912"]
    by (simp add: fl_add_def fl_def round_half_even_def power_int_minus_divide)
  have a50: "fl_add (Fin (5489253416959995 / 16777216)) (Fin (3584818558014693 / 536870912)) = Fin (2800639498448977 / 8388608)"
    using round_double_unit [of "1 / 2 ^ 24" "- 24" "5489253416959995 / 16777216 + 3584818558014693 / 536870912"]
    by (simp add: fl_add_def fl_def round_half_even_def power_int_minus_divide)
  show "foldl fl_add (Fin 0) (replicate 50 (Fin (3584818558014693 / 536870912))) = Fin (2800639498448977 / 8388608)"
    by (simp only: replicate_numeral pred_numeral_simps BitM.simps replicate.simps(1) foldl.simps
        a1 a2 a3 a4 a5 a6 a7 a8 a9 a10 a11 a12 a13 a14 a15 a16 a17 a18 a19 a20 a21 a22 a23 a24 a25 a26 a27 a28 a29 a30 a31 a32 a33 a34 a35 a36 a37 a38 a39 a40 a41 a42 a43 a44 a45 a46 a47 a48 a49 a50)
  have avg: "fl_truediv (Fin (2800639498448977 / 8388608)) (Fin 50) = Inr (Fin (7169637116029381 / 1073741824))"
    using round_double_unit [of "1 / 2 ^ 30" "- 30" "2800639498448977 / 8388608 / 50"]
    by (simp add: fl_truediv_def fl_def round_half_even_def power_int_minus_divide)
  have ro: "fl_truediv (Fin (7169637116029381 / 1073741824)) (Fin 4) = Inr (Fin (7169637116029381 / 4294967296))"
    using round_double_unit [of "1 / 2 ^ 32" "- 32" "7169637116029381 / 1073741824 / 4"]
    by (simp add: fl_truediv_def fl_def round_half_even_def power_int_minus_divide)
  have v4: "fl_truediv (Fin (3584818558014693 / 536870912)) (Fin 4) = Inr (Fin (3584818558014693 / 2147483648))"
    using round_double_unit [of "1 / 2 ^ 32" "- 32" "3584818558014693 / 536870912 / 4"]
    by (simp add: fl_truediv_def fl_def round_half_even_def power_int_minus_divide)
  show "fl_truediv (Fin (2800639498448977 / 8388608)) (Fin 50) = Inr (Fin (7169637116029381 / 1073741824))"
    by (rule avg)
  show "fl_truediv (Fin (7169637116029381 / 1073741824)) (Fin 4) = Inr (Fin (7169637116029381 / 4294967296))"
    by (rule ro)
  show "fl_truediv (Fin (3584818558014693 / 536870912)) (Fin 4) = Inr (Fin (3584818558014693 / 2147483648))"
    by (rule v4)
qed





lemma rs_value_double_sentinels:
  shows rs_full_scale: "rs_value_double (SensorSuite_init 10000 (round_double (33 / 10)) None) 65535 = Fin 0"
    and rs_zero: "rs_value_double (SensorSuite_init 10000 (round_double (33 / 10)) None) 0 = PInf"
proof -
  have vref: "round_double (33 / 10) = 3715469692580659 / 1125899906842624"
    using round_double_unit [of "1 / 2 ^ 51" "- 51" "33 / 10"]
    by (simp add: fl_def round_half_even_def power_int_minus_divide)
  have one: "fl (Fin 1) = Fin 1"
    using round_double_unit [of "1 / 2 ^ 52" "- 52" "1"]
    by (simp add: fl_def round_half_even_def power_int_minus_divide)
  have top: "fl_mul (Fin 1) (Fin (3715469692580659 / 1125899906842624)) = Fin (3715469692580659 / 1125899906842624)"
    using round_double_unit [of "1 / 2 ^ 51" "- 51" "3715469692580659 / 1125899906842624"]
    by (simp add: fl_mul_def fl_def round_half_even_def power_int_minus_divide)
  show "rs_value_double (SensorSuite_init 10000 (round_double (33 / 10)) None) 65535 = Fin 0"
    by (simp add: rs_value_double_def get_rs_double_def voltage_from_raw_double_def
        read_mq4_raw_def SensorSuite_init_def f_ge_def vref one top)
  show "rs_value_double (SensorSuite_init 10000 (round_double (33 / 10)) None) 0 = PInf"
    by (simp add: rs_value_double_def get_rs_double_def voltage_from_raw_double_def
        read_mq4_raw_def SensorSuite_init_def fl_mul_def fl_def round_double_0)
qed



end
